theory Spec2Isabelle
  imports Main "HOL-Library.Word"
begin

section \<open>nvtxpy: markers and ranges for the NVIDIA Tools Extension\<close>

text \<open>
  A shallow embedding of \<^verbatim>\<open>nvtxpy/nvtx.py\<close>. Python integers are \<open>int\<close>, byte strings are
  \<open>string\<close>, \<open>None\<close>-able arguments are \<open>option\<close>s, the fields of the ctypes structure are
  words of the declared width, and an exception is the left summand of a result.
\<close>

subsection \<open>Library locator\<close>

text \<open>\<^verbatim>\<open>str.startswith\<close>.\<close>

definition startswith :: "string \<Rightarrow> string \<Rightarrow> bool" where
  "startswith s p = (take (length p) s = p)"

text \<open>
  \<^verbatim>\<open>posixpath.join\<close> for two components: what \<^verbatim>\<open>os.path.join\<close> is on every platform but
  Windows. The locator takes \<^verbatim>\<open>os.path.join\<close> as a parameter, so that nothing depends on
  which of the standard library's implementations is in force.
\<close>

definition posixpath_join :: "string \<Rightarrow> string \<Rightarrow> string" where
  "posixpath_join a b =
     (if startswith b ''/'' then b
      else if a = [] \<or> last a = CHR ''/'' then a @ b
      else a @ ''/'' @ b)"

text \<open>
  The directory chosen when \<^verbatim>\<open>NVTXPY_CUDA_TOOLKIT\<close> is not set: the first
  \<^verbatim>\<open>if base is None\<close> block.
\<close>

definition default_base :: "string \<Rightarrow> string option" where
  "default_base platform =
     (if platform = ''darwin'' then Some ''/Developer/NVIDIA/CUDA-7.5/lib''
      else if startswith platform ''linux'' then Some ''/usr/local/cuda-7.0/lib64''
      else None)"

text \<open>The extension: the second \<^verbatim>\<open>if\<close> chain.\<close>

definition lib_ext :: "string \<Rightarrow> string" where
  "lib_ext platform =
     (if platform = ''darwin'' then ''.dylib''
      else if startswith platform ''linux'' then ''.so''
      else if platform = ''win32'' then ''.dll''
      else '''')"

text \<open>
  \<^verbatim>\<open>_get_cuda_nvtx_path\<close>. \<open>environ\<close> is \<^verbatim>\<open>os.environ.get('NVTXPY_CUDA_TOOLKIT')\<close>,
  \<open>platform\<close> is \<^verbatim>\<open>sys.platform\<close>.
\<close>

definition get_cuda_nvtx_path ::
  "(string \<Rightarrow> string \<Rightarrow> string) \<Rightarrow> string option \<Rightarrow> string \<Rightarrow> string option" where
  "get_cuda_nvtx_path os_path_join environ platform =
     (let base = (case environ of None \<Rightarrow> default_base platform | Some b \<Rightarrow> Some b);
          ext = lib_ext platform
      in case base of
           Some b \<Rightarrow> Some (os_path_join b (''libnvToolsExt'' @ ext))
         | None \<Rightarrow> None)"

subsection \<open>Event record\<close>

text \<open>The module's constants.\<close>

definition NVTX_VERSION :: int where "NVTX_VERSION = 1"

definition NVTX_COLOR_UNKNOWN :: int where "NVTX_COLOR_UNKNOWN = 0"
definition NVTX_COLOR_ARGB :: int where "NVTX_COLOR_ARGB = 1"

definition NVTX_PAYLOAD_UNKNOWN :: int where "NVTX_PAYLOAD_UNKNOWN = 0"
definition NVTX_PAYLOAD_TYPE_UNSIGNED_INT64 :: int where "NVTX_PAYLOAD_TYPE_UNSIGNED_INT64 = 1"
definition NVTX_PAYLOAD_TYPE_INT64 :: int where "NVTX_PAYLOAD_TYPE_INT64 = 2"
definition NVTX_PAYLOAD_TYPE_DOUBLE :: int where "NVTX_PAYLOAD_TYPE_DOUBLE = 3"

definition NVTX_MESSAGE_UNKNOWN :: int where "NVTX_MESSAGE_UNKNOWN = 0"
definition NVTX_MESSAGE_TYPE_ASCII :: int where "NVTX_MESSAGE_TYPE_ASCII = 1"
definition NVTX_MESSAGE_TYPE_UNICODE :: int where "NVTX_MESSAGE_TYPE_UNICODE = 2"

text \<open>
  A Python \<^verbatim>\<open>float\<close> is a C \<^verbatim>\<open>double\<close>; the codec stores and returns it without any
  arithmetic, so it is carried as its 64 bits.
\<close>

type_synonym double = "64 word"

text \<open>
  \<^verbatim>\<open>_Payload\<close>, a union of three 64-bit members, is its 64 bits; the members are the three
  readings of them. \<^verbatim>\<open>_Message\<close>, a union of two pointers, is the pointer: null, or the
  address of the bytes object's buffer (which ends with a zero byte).
\<close>

datatype message_ptr = Null | Buffer string

record EventAttributes_v1 =
  version :: "16 word"
  size :: "16 word"
  category :: "32 word"
  color_type :: "32 word"
  color_value :: "32 word"
  payload_type :: "32 word"
  reserved0 :: "32 word"
  payload_bits :: "64 word"
  message_type :: "32 word"
  message_ptr :: message_ptr

text \<open>
  \<^verbatim>\<open>ctypes.sizeof(_EventAttributes_v1)\<close> where pointers and \<^verbatim>\<open>c_double\<close> are 8 bytes,
  aligned to 8: the fields lie at 0, 2, 4, 8, 12, 16, 20, 24, 32 and 40.
\<close>

definition sizeof_EventAttributes_v1 :: int where
  "sizeof_EventAttributes_v1 = 48"

text \<open>
  \<^verbatim>\<open>_EventAttributes_v1.__init__\<close>: the record is cleared, then version and size are set.
  Storing a Python integer in an integer field keeps its low bits (\<open>word_of_int\<close>).
\<close>

definition new_EventAttributes_v1 :: EventAttributes_v1 where
  "new_EventAttributes_v1 =
     \<lparr>version = word_of_int NVTX_VERSION, size = word_of_int sizeof_EventAttributes_v1,
      category = 0, color_type = 0, color_value = 0, payload_type = 0, reserved0 = 0,
      payload_bits = 0, message_type = 0, message_ptr = Null\<rparr>"

text \<open>What the accessors and the encoder exchange with Python code.\<close>

datatype pyval =
    PyNone
  | PyInt int
  | PyFloat double
  | PyBytes string
  | PyStr string
  | PyWide string  \<comment> \<open>the buffer reread as wide characters; the characters are not modelled\<close>

datatype exn = AttributeError string | Raised string

text \<open>
  A payload argument by the two \<^verbatim>\<open>isinstance\<close> tests of \<^verbatim>\<open>_create_event\<close>: an instance of
  \<^verbatim>\<open>numbers.Integral\<close>, an instance of \<^verbatim>\<open>numbers.Real\<close> that is not integral (by its value as
  a double), or anything else.
\<close>

datatype payload_arg = Integral int | Real double | NotANumber

text \<open>Python's \<^verbatim>\<open>hex\<close> on a natural number.\<close>

definition hex_digit :: "nat \<Rightarrow> char" where
  "hex_digit d = ''0123456789abcdef'' ! d"

fun hex_digits :: "nat \<Rightarrow> string" where
  "hex_digits n = (if n < 16 then [hex_digit n] else hex_digits (n div 16) @ [hex_digit (n mod 16)])"

definition hex :: "nat \<Rightarrow> string" where
  "hex n = ''0x'' @ hex_digits n"

text \<open>Reading a \<^verbatim>\<open>c_char_p\<close> member: \<^verbatim>\<open>None\<close> for null, else the bytes before the first zero.\<close>

definition read_char_p :: "message_ptr \<Rightarrow> pyval" where
  "read_char_p p =
     (case p of Null \<Rightarrow> PyNone
      | Buffer bs \<Rightarrow> PyBytes (takeWhile (\<lambda>c. c \<noteq> CHR 0x00) bs))"

text \<open>Reading a \<^verbatim>\<open>c_wchar_p\<close> member.\<close>

definition read_wchar_p :: "message_ptr \<Rightarrow> pyval" where
  "read_wchar_p p = (case p of Null \<Rightarrow> PyNone | Buffer bs \<Rightarrow> PyWide bs)"

text \<open>
  The three properties. A \<^verbatim>\<open>c_int32\<close> field reads as a signed integer (\<open>sint\<close>), a
  \<^verbatim>\<open>c_uint32\<close> or \<^verbatim>\<open>c_uint64\<close> one as an unsigned integer.
\<close>

definition payload :: "EventAttributes_v1 \<Rightarrow> exn + pyval" where
  "payload self =
     (if sint (payload_type self) = NVTX_PAYLOAD_UNKNOWN then Inr PyNone
      else if sint (payload_type self) = NVTX_PAYLOAD_TYPE_UNSIGNED_INT64
        then Inr (PyInt (uint (payload_bits self)))
      else if sint (payload_type self) = NVTX_PAYLOAD_TYPE_INT64
        then Inr (PyInt (sint (payload_bits self)))
      else if sint (payload_type self) = NVTX_PAYLOAD_TYPE_DOUBLE
        then Inr (PyFloat (payload_bits self))
      else Inl (AttributeError ''Payload of unknown type''))"

definition color :: "EventAttributes_v1 \<Rightarrow> exn + pyval" where
  "color self =
     (if sint (color_type self) = NVTX_COLOR_UNKNOWN then Inr PyNone
      else if sint (color_type self) = NVTX_COLOR_ARGB
        then Inr (PyStr (hex (unat (color_value self))))
      else Inl (AttributeError ''Color of unknown type''))"

definition message :: "EventAttributes_v1 \<Rightarrow> exn + pyval" where
  "message self =
     (if sint (message_type self) = NVTX_MESSAGE_UNKNOWN then Inr PyNone
      else if sint (message_type self) = NVTX_MESSAGE_TYPE_ASCII
        then Inr (read_char_p (message_ptr self))
      else if sint (message_type self) = NVTX_MESSAGE_TYPE_UNICODE
        then Inr (read_wchar_p (message_ptr self))
      else Inl (AttributeError ''Message of unknown type''))"

text \<open>\<^verbatim>\<open>_create_event\<close>: four independent updates of a fresh record.\<close>

definition set_category :: "int option \<Rightarrow> EventAttributes_v1 \<Rightarrow> EventAttributes_v1" where
  "set_category cat ea =
     (case cat of None \<Rightarrow> ea | Some c \<Rightarrow> ea\<lparr>category := word_of_int c\<rparr>)"

definition set_color :: "int option \<Rightarrow> EventAttributes_v1 \<Rightarrow> EventAttributes_v1" where
  "set_color col ea =
     (case col of None \<Rightarrow> ea
      | Some c \<Rightarrow> ea\<lparr>color_type := word_of_int NVTX_COLOR_ARGB, color_value := word_of_int c\<rparr>)"

definition set_payload :: "payload_arg option \<Rightarrow> EventAttributes_v1 \<Rightarrow> EventAttributes_v1" where
  "set_payload pl ea =
     (case pl of None \<Rightarrow> ea
      | Some (Integral i) \<Rightarrow>
          ea\<lparr>payload_type := word_of_int NVTX_PAYLOAD_TYPE_INT64, payload_bits := word_of_int i\<rparr>
      | Some (Real d) \<Rightarrow>
          ea\<lparr>payload_type := word_of_int NVTX_PAYLOAD_TYPE_DOUBLE, payload_bits := d\<rparr>
      | Some NotANumber \<Rightarrow> ea)"

definition set_message :: "string option \<Rightarrow> EventAttributes_v1 \<Rightarrow> EventAttributes_v1" where
  "set_message msg ea =
     (case msg of None \<Rightarrow> ea
      | Some m \<Rightarrow>
          ea\<lparr>message_type := word_of_int NVTX_MESSAGE_TYPE_ASCII, message_ptr := Buffer m\<rparr>)"

definition create_event ::
  "string option \<Rightarrow> int option \<Rightarrow> payload_arg option \<Rightarrow> int option \<Rightarrow> EventAttributes_v1" where
  "create_event msg col pl cat =
     set_message msg (set_payload pl (set_color col (set_category cat new_EventAttributes_v1)))"

subsection \<open>Binding\<close>

text \<open>
  The module body runs once. Inside one \<^verbatim>\<open>try\<close> it loads the library and reads five of its
  attributes; any exception there selects the three stubs of the \<^verbatim>\<open>except\<close> block instead.
  \<open>dlopen\<close> stands for \<^verbatim>\<open>ctypes.CDLL\<close> (\<^verbatim>\<open>ctypes.WinDLL\<close> on win32): the names the
  library at that path exports, or the exception it raises.
\<close>

datatype binding = Bound | Unavailable

definition load_lib ::
  "(string option \<Rightarrow> exn + string list) \<Rightarrow> (string \<Rightarrow> string \<Rightarrow> string) \<Rightarrow> string option \<Rightarrow> string
     \<Rightarrow> exn + string list" where
  "load_lib dlopen os_path_join environ platform =
     dlopen (get_cuda_nvtx_path os_path_join environ platform)"

text \<open>The attributes of \<^verbatim>\<open>_lib\<close> the \<^verbatim>\<open>try\<close> block reads, in its order.\<close>

definition entry_points :: "string list" where
  "entry_points = [''nvtxMarkA'', ''nvtxMarkEx'', ''nvtxRangePushEx'', ''nvtxRangePushA'', ''nvtxRangePop'']"

definition module_binding ::
  "(string option \<Rightarrow> exn + string list) \<Rightarrow> (string \<Rightarrow> string \<Rightarrow> string) \<Rightarrow> string option \<Rightarrow> string
     \<Rightarrow> binding" where
  "module_binding dlopen os_path_join environ platform =
     (case load_lib dlopen os_path_join environ platform of
        Inl e \<Rightarrow> Unavailable
      | Inr exports \<Rightarrow> if list_all (\<lambda>s. s \<in> set exports) entry_points then Bound else Unavailable)"

subsection \<open>The world the facade acts on\<close>

text \<open>
  What the module can change: the native entry points it has invoked, the event records
  \<^verbatim>\<open>_create_event\<close> has built, and the objects behind \<^verbatim>\<open>_stats\<close>. Objects are addressed by
  their index in a store, one store per class: dicts from names to list references, and the
  two-element lists \<^verbatim>\<open>[count, total]\<close>. \<open>now\<close> is what \<^verbatim>\<open>time()\<close> returns; its type \<open>'t\<close>
  only has to carry \<open>+\<close> and \<open>-\<close>, no law of arithmetic is assumed of it.
\<close>

datatype native_call =
    NvtxMarkA string
  | NvtxMarkEx EventAttributes_v1
  | NvtxRangePushA string
  | NvtxRangePushEx EventAttributes_v1
  | NvtxRangePop

type_synonym addr = nat

record 't world =
  calls :: "native_call list"
  events :: "EventAttributes_v1 list"
  now :: 't
  dicts :: "(string \<times> addr) list list"
  lists :: "(int \<times> 't) list"

text \<open>\<^verbatim>\<open>_stats = {}\<close>: the first dict the module allocates.\<close>

definition stats_ref :: addr where
  "stats_ref = 0"

definition init_world :: "'t \<Rightarrow> 't world" where
  "init_world t = \<lparr>calls = [], events = [], now = t, dicts = [[]], lists = []\<rparr>"

text \<open>
  Every reference is allocated: \<^verbatim>\<open>_stats\<close> exists and the lists it refers to exist.
\<close>

definition wf_world :: "'t world \<Rightarrow> bool" where
  "wf_world w =
     (stats_ref < length (dicts w) \<and>
      list_all (\<lambda>d. list_all (\<lambda>ka. snd ka < length (lists w)) d) (dicts w))"

subsection \<open>Facade\<close>

text \<open>
  \<^verbatim>\<open>profile_mark\<close>, \<^verbatim>\<open>profile_range_push\<close> and \<^verbatim>\<open>profile_range_pop\<close>: under \<open>Bound\<close> the
  definitions of the \<^verbatim>\<open>try\<close> block, under \<open>Unavailable\<close> those of the \<^verbatim>\<open>except\<close> block.
\<close>

definition profile_mark ::
  "binding \<Rightarrow> string \<Rightarrow> int option \<Rightarrow> payload_arg option \<Rightarrow> int option \<Rightarrow> 't world \<Rightarrow> 't world" where
  "profile_mark b msg col pl cat w =
     (case b of
        Unavailable \<Rightarrow> w
      | Bound \<Rightarrow>
          if col = None \<and> pl = None \<and> cat = None
          then w\<lparr>calls := calls w @ [NvtxMarkA msg]\<rparr>
          else let evnt = create_event (Some msg) col pl cat
               in w\<lparr>events := events w @ [evnt], calls := calls w @ [NvtxMarkEx evnt]\<rparr>)"

definition profile_range_push ::
  "binding \<Rightarrow> string \<Rightarrow> int option \<Rightarrow> payload_arg option \<Rightarrow> int option \<Rightarrow> 't world \<Rightarrow> 't world" where
  "profile_range_push b msg col pl cat w =
     (case b of
        Unavailable \<Rightarrow> w
      | Bound \<Rightarrow>
          if col = None \<and> pl = None \<and> cat = None
          then w\<lparr>calls := calls w @ [NvtxRangePushA msg]\<rparr>
          else let evnt = create_event (Some msg) col pl cat
               in w\<lparr>events := events w @ [evnt], calls := calls w @ [NvtxRangePushEx evnt]\<rparr>)"

definition profile_range_pop :: "binding \<Rightarrow> 't world \<Rightarrow> 't world" where
  "profile_range_pop b w =
     (case b of
        Unavailable \<Rightarrow> w
      | Bound \<Rightarrow> w\<lparr>calls := calls w @ [NvtxRangePop]\<rparr>)"

subsection \<open>Scoped ranges\<close>

text \<open>
  A \<^verbatim>\<open>with\<close> statement over a \<^verbatim>\<open>contextlib.contextmanager\<close> generator whose single
  \<^verbatim>\<open>yield\<close> stands outside any \<^verbatim>\<open>try\<close>: \<open>enter\<close> is the code before the \<^verbatim>\<open>yield\<close> (what
  it returns are the generator's locals), \<open>exit\<close> the code after it. When the block raises,
  the exception is thrown into the generator at the \<^verbatim>\<open>yield\<close>, nothing handles it there,
  and it leaves the \<^verbatim>\<open>with\<close> statement: the code after the \<^verbatim>\<open>yield\<close> does not run.
\<close>

type_synonym ('t, 'r) block = "'t world \<Rightarrow> (exn + 'r) \<times> 't world"

definition with_contextmanager ::
  "('t world \<Rightarrow> 's \<times> 't world) \<Rightarrow> ('s \<Rightarrow> 't world \<Rightarrow> 't world) \<Rightarrow> ('t, 'r) block \<Rightarrow> ('t, 'r) block" where
  "with_contextmanager enter exit body w =
     (case enter w of (s, w1) \<Rightarrow>
        (case body w1 of
           (Inl e, w2) \<Rightarrow> (Inl e, w2)
         | (Inr r, w2) \<Rightarrow> (Inr r, exit s w2)))"

text \<open>\<^verbatim>\<open>profile_range_nvtx_only\<close>.\<close>

definition profile_range_nvtx_only_enter ::
  "binding \<Rightarrow> string \<Rightarrow> int option \<Rightarrow> payload_arg option \<Rightarrow> int option \<Rightarrow> 't world \<Rightarrow> unit \<times> 't world" where
  "profile_range_nvtx_only_enter b name col pl cat w = ((), profile_range_push b name col pl None w)"

definition profile_range_nvtx_only ::
  "binding \<Rightarrow> string \<Rightarrow> int option \<Rightarrow> payload_arg option \<Rightarrow> int option \<Rightarrow> ('t, 'r) block \<Rightarrow> ('t, 'r) block" where
  "profile_range_nvtx_only b name col pl cat =
     with_contextmanager (profile_range_nvtx_only_enter b name col pl cat) (\<lambda>_. profile_range_pop b)"

text \<open>Reading and writing the objects behind \<^verbatim>\<open>_stats\<close>.\<close>

definition dict_get :: "'t world \<Rightarrow> addr \<Rightarrow> string \<Rightarrow> addr option" where
  "dict_get w d k = (if d < length (dicts w) then map_of (dicts w ! d) k else None)"

fun dict_update :: "string \<Rightarrow> addr \<Rightarrow> (string \<times> addr) list \<Rightarrow> (string \<times> addr) list" where
  "dict_update k v [] = [(k, v)]"
| "dict_update k v (p # ps) = (if fst p = k then (k, v) # ps else p # dict_update k v ps)"

text \<open>
  The code of \<^verbatim>\<open>profile_range\<close> after its \<^verbatim>\<open>yield\<close>; \<open>t\<close> is the local the code before the
  \<^verbatim>\<open>yield\<close> left. A list \<^verbatim>\<open>[count, total]\<close> is not empty, so \<^verbatim>\<open>if stat:\<close> holds exactly
  when \<^verbatim>\<open>_stats.get(name)\<close> found one.
\<close>

definition profile_range_exit :: "binding \<Rightarrow> string \<Rightarrow> 't \<Rightarrow> ('t :: {plus, minus}) world \<Rightarrow> 't world" where
  "profile_range_exit b name t w =
     (let t' = now w - t;
          w' = (case dict_get w stats_ref name of
                  Some a \<Rightarrow>
                    w\<lparr>lists := (lists w)[a := (fst (lists w ! a) + 1, snd (lists w ! a) + t')]\<rparr>
                | None \<Rightarrow>
                    w\<lparr>lists := lists w @ [(1, t')],
                      dicts := (dicts w)[stats_ref :=
                                 dict_update name (length (lists w)) (dicts w ! stats_ref)]\<rparr>)
      in profile_range_pop b w')"

definition profile_range_enter ::
  "binding \<Rightarrow> string \<Rightarrow> int option \<Rightarrow> payload_arg option \<Rightarrow> int option \<Rightarrow> 't world \<Rightarrow> 't \<times> 't world" where
  "profile_range_enter b name col pl cat w =
     (let w1 = profile_range_push b name col pl None w in (now w1, w1))"

definition profile_range ::
  "binding \<Rightarrow> string \<Rightarrow> int option \<Rightarrow> payload_arg option \<Rightarrow> int option
     \<Rightarrow> (('t :: {plus, minus}), 'r) block \<Rightarrow> ('t, 'r) block" where
  "profile_range b name col pl cat =
     with_contextmanager (profile_range_enter b name col pl cat) (profile_range_exit b name)"

text \<open>
  \<^verbatim>\<open>profiled(tag, category, color, payload)(func)\<close> applied to \<open>args\<close>: the wrapper returns
  what \<^verbatim>\<open>func\<close> returns from inside the \<^verbatim>\<open>with\<close> block.
\<close>

definition profiled ::
  "binding \<Rightarrow> string \<Rightarrow> int option \<Rightarrow> int option \<Rightarrow> payload_arg option
     \<Rightarrow> ('a \<Rightarrow> (('t :: {plus, minus}), 'r) block) \<Rightarrow> 'a \<Rightarrow> ('t, 'r) block" where
  "profiled b tag cat col pl func args = profile_range b tag col pl cat (func args)"

subsection \<open>Statistics snapshot\<close>

text \<open>
  \<^verbatim>\<open>copy.deepcopy\<close> on the items of a dict of lists. Each list met for the first time is
  copied to a new list object (the integers and floats inside are immutable and are kept);
  \<open>memo\<close> maps the lists already copied to their copies, so that a list met again is not
  copied twice.
\<close>

fun deepcopy_items ::
  "(string \<times> addr) list \<Rightarrow> (addr \<rightharpoonup> addr) \<Rightarrow> (int \<times> 't) list
     \<Rightarrow> (string \<times> addr) list \<times> (addr \<rightharpoonup> addr) \<times> (int \<times> 't) list" where
  "deepcopy_items [] memo ls = ([], memo, ls)"
| "deepcopy_items ((k, a) # kvs) memo ls =
     (case memo a of
        Some a' \<Rightarrow>
          (case deepcopy_items kvs memo ls of (r, memo', ls') \<Rightarrow> ((k, a') # r, memo', ls'))
      | None \<Rightarrow>
          (case deepcopy_items kvs (memo(a \<mapsto> length ls)) (ls @ [ls ! a]) of
             (r, memo', ls') \<Rightarrow> ((k, length ls) # r, memo', ls')))"

text \<open>\<^verbatim>\<open>getstats\<close>: the reference to the new dict, and the world that holds the copies.\<close>

definition getstats :: "'t world \<Rightarrow> addr \<times> 't world" where
  "getstats w =
     (case deepcopy_items (dicts w ! stats_ref) Map.empty (lists w) of
        (items, memo, ls) \<Rightarrow> (length (dicts w), w\<lparr>dicts := dicts w @ [items], lists := ls\<rparr>))"

text \<open>
  The value of the dict at \<open>d\<close>: its names in order, each with the contents of its list.
  Two dicts of lists are equal for Python's \<^verbatim>\<open>==\<close> when these agree as mappings.
\<close>

definition dict_value :: "'t world \<Rightarrow> addr \<Rightarrow> (string \<times> int \<times> 't) list" where
  "dict_value w d = map (\<lambda>ka. (fst ka, lists w ! snd ka)) (dicts w ! d)"

text \<open>
  What a caller can do to a dict of lists it holds the reference \<open>d\<close> of: bind a name to a
  new list or to a list the dict already holds, remove a name, empty the dict, and assign
  to either element of a list reached through the dict. An operation Python would refuse
  (a missing name) changes nothing.
\<close>

datatype 't mutation =
    SetItem string int 't
  | SetAlias string string
  | DelItem string
  | Clear
  | SetCount string int
  | SetTotal string 't

fun mutate :: "addr \<Rightarrow> 't mutation \<Rightarrow> 't world \<Rightarrow> 't world" where
  "mutate d (SetItem k c t) w =
     w\<lparr>lists := lists w @ [(c, t)],
       dicts := (dicts w)[d := dict_update k (length (lists w)) (dicts w ! d)]\<rparr>"
| "mutate d (SetAlias k k') w =
     (case dict_get w d k' of
        None \<Rightarrow> w
      | Some a \<Rightarrow> w\<lparr>dicts := (dicts w)[d := dict_update k a (dicts w ! d)]\<rparr>)"
| "mutate d (DelItem k) w = w\<lparr>dicts := (dicts w)[d := filter (\<lambda>p. fst p \<noteq> k) (dicts w ! d)]\<rparr>"
| "mutate d Clear w = w\<lparr>dicts := (dicts w)[d := []]\<rparr>"
| "mutate d (SetCount k c) w =
     (case dict_get w d k of
        None \<Rightarrow> w
      | Some a \<Rightarrow> w\<lparr>lists := (lists w)[a := (c, snd (lists w ! a))]\<rparr>)"
| "mutate d (SetTotal k t) w =
     (case dict_get w d k of
        None \<Rightarrow> w
      | Some a \<Rightarrow> w\<lparr>lists := (lists w)[a := (fst (lists w ! a), t)]\<rparr>)"

definition mutate_all :: "addr \<Rightarrow> 't mutation list \<Rightarrow> 't world \<Rightarrow> 't world" where
  "mutate_all d ms w = foldl (\<lambda>w' m. mutate d m w') w ms"

text \<open>Counting the range pushes and the range pops among the native calls made.\<close>

definition is_push :: "native_call \<Rightarrow> bool" where
  "is_push c = (case c of NvtxRangePushA m \<Rightarrow> True | NvtxRangePushEx ea \<Rightarrow> True | _ \<Rightarrow> False)"

definition range_pushes :: "native_call list \<Rightarrow> nat" where
  "range_pushes cs = length (filter is_push cs)"

definition range_pops :: "native_call list \<Rightarrow> nat" where
  "range_pops cs = length (filter (\<lambda>c. c = NvtxRangePop) cs)"

subsection \<open>Blocks used as examples\<close>

text \<open>A block that raises \<open>e\<close> at once, and one that ends normally when the clock reads \<open>t\<close>.\<close>

definition failing_block :: "exn \<Rightarrow> ('t, unit) block" where
  "failing_block e w = (Inl e, w)"

definition timed_block :: "'t \<Rightarrow> ('t, unit) block" where
  "timed_block t w = (Inr (), w\<lparr>now := t\<rparr>)"

text \<open>
  \<open>n\<close> \<^verbatim>\<open>with profile_range(name)\<close> statements in a row; the \<open>i\<close>-th is entered when the clock
  reads \<open>fst\<close> of the \<open>i\<close>-th pair and its block ends normally when it reads \<open>snd\<close> of it.
\<close>

fun profile_ranges :: "binding \<Rightarrow> string \<Rightarrow> ('t \<times> 't) list \<Rightarrow> ('t :: {plus, minus}) world \<Rightarrow> 't world" where
  "profile_ranges b name [] w = w"
| "profile_ranges b name (se # ses) w =
     profile_ranges b name ses
       (snd (profile_range b name None None None (timed_block (snd se)) (w\<lparr>now := fst se\<rparr>)))"

text \<open>
  A record whose three discriminants all hold \<open>k\<close>, with every bit of the payload set and
  a two-byte message buffer.
\<close>

definition ea_example :: "int \<Rightarrow> EventAttributes_v1" where
  "ea_example k =
     new_EventAttributes_v1\<lparr>color_type := word_of_int k, color_value := 255,
       payload_type := word_of_int k, payload_bits := 18446744073709551615,
       message_type := word_of_int k, message_ptr := Buffer ''ab''\<rparr>"

text \<open>Two loaders: one finds no library anywhere, one finds a library without \<^verbatim>\<open>nvtxRangePop\<close>.\<close>

definition dlopen_fails :: "string option \<Rightarrow> exn + string list" where
  "dlopen_fails path = Inl (Raised ''OSError'')"

definition dlopen_partial :: "string option \<Rightarrow> exn + string list" where
  "dlopen_partial path = Inr [''nvtxMarkA'', ''nvtxMarkEx'', ''nvtxRangePushEx'', ''nvtxRangePushA'']"

section \<open>Properties\<close>

declare hex_digits.simps [simp del]

lemmas nvtx_constants =
  NVTX_VERSION_def NVTX_COLOR_UNKNOWN_def NVTX_COLOR_ARGB_def
  NVTX_PAYLOAD_UNKNOWN_def NVTX_PAYLOAD_TYPE_UNSIGNED_INT64_def
  NVTX_PAYLOAD_TYPE_INT64_def NVTX_PAYLOAD_TYPE_DOUBLE_def
  NVTX_MESSAGE_UNKNOWN_def NVTX_MESSAGE_TYPE_ASCII_def NVTX_MESSAGE_TYPE_UNICODE_def

lemmas create_event_defs =
  create_event_def set_message_def set_payload_def set_color_def set_category_def
  new_EventAttributes_v1_def

subsection \<open>Locator\<close>

text \<open>
  C9. With the override set, the locator returns the override joined with the library's
  file name, whose extension follows the platform, whatever the platform is. With no
  override it joins the one default directory of darwin (extension .dylib) or of a linux
  platform (extension .so) with that name, and on every other platform it returns no
  candidate.
\<close>

theorem locator_policy:
  "get_cuda_nvtx_path j (Some ov) ''darwin'' = Some (j ov ''libnvToolsExt.dylib'')
 \<and> (startswith p ''linux'' \<longrightarrow> get_cuda_nvtx_path j (Some ov) p = Some (j ov ''libnvToolsExt.so''))
 \<and> get_cuda_nvtx_path j (Some ov) ''win32'' = Some (j ov ''libnvToolsExt.dll'')
 \<and> (p \<noteq> ''darwin'' \<and> \<not> startswith p ''linux'' \<and> p \<noteq> ''win32'' \<longrightarrow>
       get_cuda_nvtx_path j (Some ov) p = Some (j ov ''libnvToolsExt''))
 \<and> get_cuda_nvtx_path j None ''darwin'' = Some (j ''/Developer/NVIDIA/CUDA-7.5/lib'' ''libnvToolsExt.dylib'')
 \<and> (startswith p ''linux'' \<longrightarrow>
       get_cuda_nvtx_path j None p = Some (j ''/usr/local/cuda-7.0/lib64'' ''libnvToolsExt.so''))
 \<and> (p \<noteq> ''darwin'' \<and> \<not> startswith p ''linux'' \<longrightarrow> get_cuda_nvtx_path j None p = None)"
  by (simp add: get_cuda_nvtx_path_def default_base_def lib_ext_def startswith_def)

theorem locator_policy_witness:
  "get_cuda_nvtx_path posixpath_join (Some ''/custom/path'') ''linux2'' = Some ''/custom/path/libnvToolsExt.so''
 \<and> get_cuda_nvtx_path posixpath_join None ''linux2'' = Some ''/usr/local/cuda-7.0/lib64/libnvToolsExt.so''
 \<and> get_cuda_nvtx_path posixpath_join (Some ''/custom/path'') ''sunos5'' = Some ''/custom/path/libnvToolsExt''
 \<and> get_cuda_nvtx_path posixpath_join None ''win32'' = None"
  using locator_policy [of posixpath_join "''/custom/path''" "''linux2''"]
    locator_policy [of posixpath_join "''/custom/path''" "''sunos5''"]
    locator_policy [of posixpath_join "''/custom/path''" "''win32''"]
  by (simp add: startswith_def posixpath_join_def)

subsection \<open>Event record codec\<close>

lemma hex_ffff0000: "hex 4294901760 = ''0xffff0000''"
  by (simp add: hex_def hex_digits.simps hex_digit_def)

text \<open>
  C5. The record built from message "hi", color 0xffff0000, payload 42 and category 7 reads
  back through its properties as the message "hi", the color 0xffff0000 (the property
  gives its hexadecimal text; the discriminant is ARGB and the field holds the number),
  the payload 42 under the signed 64-bit discriminant, and the category 7.
\<close>

theorem encode_decode_example:
  "message (create_event (Some ''hi'') (Some 0xffff0000) (Some (Integral 42)) (Some 7)) = Inr (PyBytes ''hi'')
 \<and> color (create_event (Some ''hi'') (Some 0xffff0000) (Some (Integral 42)) (Some 7)) = Inr (PyStr ''0xffff0000'')
 \<and> sint (color_type (create_event (Some ''hi'') (Some 0xffff0000) (Some (Integral 42)) (Some 7))) = NVTX_COLOR_ARGB
 \<and> uint (color_value (create_event (Some ''hi'') (Some 0xffff0000) (Some (Integral 42)) (Some 7))) = 0xffff0000
 \<and> payload (create_event (Some ''hi'') (Some 0xffff0000) (Some (Integral 42)) (Some 7)) = Inr (PyInt 42)
 \<and> sint (payload_type (create_event (Some ''hi'') (Some 0xffff0000) (Some (Integral 42)) (Some 7))) = NVTX_PAYLOAD_TYPE_INT64
 \<and> sint (payload_bits (create_event (Some ''hi'') (Some 0xffff0000) (Some (Integral 42)) (Some 7))) = 42
 \<and> uint (category (create_event (Some ''hi'') (Some 0xffff0000) (Some (Integral 42)) (Some 7))) = 7"
  by (simp add: create_event_defs nvtx_constants message_def color_def payload_def read_char_p_def hex_ffff0000)

lemma sint_word_of_int_64:
  "- (2 ^ 63) \<le> i \<Longrightarrow> i < 2 ^ 63 \<Longrightarrow> sint (word_of_int i :: 64 word) = i"
  by (simp add: signed_take_bit_int_eq_self sint_sbintrunc')

text \<open>
  C6 (as the code has it). The encoder gives an integral payload the signed 64-bit
  discriminant and stores its 64 low bits in the signed 64-bit member, so the payload
  reads back as the signed number those bits spell: the payload itself exactly when it
  lies between \<open>-(2^63)\<close> and \<open>2^63 - 1\<close>. It gives a real payload that is not integral
  the double discriminant; it never produces the unsigned 64-bit discriminant, whatever
  its arguments; and with no payload the discriminant and the stored bits stay zero.
\<close>

theorem create_event_payload_kind:
  "sint (payload_type (create_event m c (Some (Integral i)) cat)) = NVTX_PAYLOAD_TYPE_INT64
 \<and> payload_bits (create_event m c (Some (Integral i)) cat) = word_of_int i
 \<and> payload (create_event m c (Some (Integral i)) cat) = Inr (PyInt (sint (word_of_int i :: 64 word)))
 \<and> (- (2 ^ 63) \<le> i \<and> i < 2 ^ 63 \<longrightarrow>
       payload (create_event m c (Some (Integral i)) cat) = Inr (PyInt i))
 \<and> (payload (create_event m c (Some (Integral i)) cat) = Inr (PyInt i) \<longrightarrow>
       - (2 ^ 63) \<le> i \<and> i < 2 ^ 63)
 \<and> sint (payload_type (create_event m c (Some (Real d)) cat)) = NVTX_PAYLOAD_TYPE_DOUBLE
 \<and> payload (create_event m c (Some (Real d)) cat) = Inr (PyFloat d)
 \<and> sint (payload_type (create_event m c pl cat)) \<noteq> NVTX_PAYLOAD_TYPE_UNSIGNED_INT64
 \<and> sint (payload_type (create_event m c None cat)) = NVTX_PAYLOAD_UNKNOWN
 \<and> payload_bits (create_event m c None cat) = 0
 \<and> payload (create_event m c None cat) = Inr PyNone"
proof -
  have range: "- (2 ^ 63) \<le> i \<and> i < 2 ^ 63" if "sint (word_of_int i :: 64 word) = i"
  proof -
    have "- (2 ^ 63) \<le> sint (word_of_int i :: 64 word)" "sint (word_of_int i :: 64 word) < 2 ^ 63"
      using sint_ge [of "word_of_int i :: 64 word"] sint_lt [of "word_of_int i :: 64 word"] by simp_all
    with that show ?thesis by simp
  qed
  have rd: "payload (create_event m c (Some (Integral i)) cat) = Inr (PyInt (sint (word_of_int i :: 64 word)))"
    by (simp add: create_event_defs nvtx_constants payload_def split: option.splits)
  have conv: "payload (create_event m c (Some (Integral i)) cat) = Inr (PyInt i) \<longrightarrow>
       - (2 ^ 63) \<le> i \<and> i < 2 ^ 63"
    using range by (simp add: rd)
  have rest: "sint (payload_type (create_event m c (Some (Integral i)) cat)) = NVTX_PAYLOAD_TYPE_INT64
 \<and> payload_bits (create_event m c (Some (Integral i)) cat) = word_of_int i
 \<and> (- (2 ^ 63) \<le> i \<and> i < 2 ^ 63 \<longrightarrow>
       payload (create_event m c (Some (Integral i)) cat) = Inr (PyInt i))
 \<and> sint (payload_type (create_event m c (Some (Real d)) cat)) = NVTX_PAYLOAD_TYPE_DOUBLE
 \<and> payload (create_event m c (Some (Real d)) cat) = Inr (PyFloat d)
 \<and> sint (payload_type (create_event m c pl cat)) \<noteq> NVTX_PAYLOAD_TYPE_UNSIGNED_INT64
 \<and> sint (payload_type (create_event m c None cat)) = NVTX_PAYLOAD_UNKNOWN
 \<and> payload_bits (create_event m c None cat) = 0
 \<and> payload (create_event m c None cat) = Inr PyNone"
    by (simp add: create_event_defs nvtx_constants payload_def sint_word_of_int_64
      split: option.splits payload_arg.splits)
  from rd conv rest show ?thesis by blast
qed

theorem create_event_payload_kind_witness:
  "payload (create_event (Some ''m'') None (Some (Integral (- 5))) None) = Inr (PyInt (- 5))
 \<and> payload (create_event (Some ''m'') None (Some (Real 0x3FF8000000000000)) None) = Inr (PyFloat 0x3FF8000000000000)
 \<and> sint (payload_type (create_event (Some ''m'') None (Some NotANumber) None)) \<noteq> NVTX_PAYLOAD_TYPE_UNSIGNED_INT64"
  using create_event_payload_kind [of "Some ''m''" None "- 5" None "0x3FF8000000000000" "Some NotANumber"]
  by simp

text \<open>
  An integral payload outside the signed 64-bit range is accepted and is not the value
  stored: \<open>2^63\<close> reads back as \<open>-(2^63)\<close>, and \<open>2^64 + 5\<close> as \<open>5\<close>.
\<close>

theorem create_event_big_payload_counterexample:
  "sint (payload_type (create_event (Some ''m'') None (Some (Integral 9223372036854775808)) None)) =
     NVTX_PAYLOAD_TYPE_INT64
 \<and> payload (create_event (Some ''m'') None (Some (Integral 9223372036854775808)) None) =
     Inr (PyInt (- 9223372036854775808))
 \<and> payload (create_event (Some ''m'') None (Some (Integral 18446744073709551621)) None) =
     Inr (PyInt 5)"
  by (simp add: create_event_defs nvtx_constants payload_def)

text \<open>
  C7. Each of the properties payload, color and message looks at its discriminant only:
  the value none gives \<^verbatim>\<open>None\<close>, each known value gives the reading of the field that
  belongs to it (for a color, the hexadecimal text of the field), and every other value
  raises \<^verbatim>\<open>AttributeError\<close>.
\<close>

theorem decode_dispatch:
  "(sint (payload_type ea) = NVTX_PAYLOAD_UNKNOWN \<longrightarrow> payload ea = Inr PyNone)
 \<and> (sint (payload_type ea) = NVTX_PAYLOAD_TYPE_UNSIGNED_INT64 \<longrightarrow>
       payload ea = Inr (PyInt (uint (payload_bits ea))))
 \<and> (sint (payload_type ea) = NVTX_PAYLOAD_TYPE_INT64 \<longrightarrow>
       payload ea = Inr (PyInt (sint (payload_bits ea))))
 \<and> (sint (payload_type ea) = NVTX_PAYLOAD_TYPE_DOUBLE \<longrightarrow>
       payload ea = Inr (PyFloat (payload_bits ea)))
 \<and> (sint (payload_type ea) \<notin> {NVTX_PAYLOAD_UNKNOWN, NVTX_PAYLOAD_TYPE_UNSIGNED_INT64,
         NVTX_PAYLOAD_TYPE_INT64, NVTX_PAYLOAD_TYPE_DOUBLE} \<longrightarrow>
       payload ea = Inl (AttributeError ''Payload of unknown type''))
 \<and> (sint (color_type ea) = NVTX_COLOR_UNKNOWN \<longrightarrow> color ea = Inr PyNone)
 \<and> (sint (color_type ea) = NVTX_COLOR_ARGB \<longrightarrow>
       color ea = Inr (PyStr (hex (unat (color_value ea)))))
 \<and> (sint (color_type ea) \<notin> {NVTX_COLOR_UNKNOWN, NVTX_COLOR_ARGB} \<longrightarrow>
       color ea = Inl (AttributeError ''Color of unknown type''))
 \<and> (sint (message_type ea) = NVTX_MESSAGE_UNKNOWN \<longrightarrow> message ea = Inr PyNone)
 \<and> (sint (message_type ea) = NVTX_MESSAGE_TYPE_ASCII \<longrightarrow>
       message ea = Inr (read_char_p (message_ptr ea)))
 \<and> (sint (message_type ea) = NVTX_MESSAGE_TYPE_UNICODE \<longrightarrow>
       message ea = Inr (read_wchar_p (message_ptr ea)))
 \<and> (sint (message_type ea) \<notin> {NVTX_MESSAGE_UNKNOWN, NVTX_MESSAGE_TYPE_ASCII,
         NVTX_MESSAGE_TYPE_UNICODE} \<longrightarrow>
       message ea = Inl (AttributeError ''Message of unknown type''))"
  by (simp add: payload_def color_def message_def nvtx_constants)

theorem decode_dispatch_witness:
  "payload (ea_example 0) = Inr PyNone \<and> color (ea_example 0) = Inr PyNone \<and> message (ea_example 0) = Inr PyNone
 \<and> payload (ea_example 1) = Inr (PyInt 18446744073709551615) \<and> color (ea_example 1) = Inr (PyStr ''0xff'')
 \<and> message (ea_example 1) = Inr (PyBytes ''ab'')
 \<and> payload (ea_example 2) = Inr (PyInt (- 1)) \<and> message (ea_example 2) = Inr (PyWide ''ab'')
 \<and> payload (ea_example 3) = Inr (PyFloat 18446744073709551615)
 \<and> payload (ea_example 4) = Inl (AttributeError ''Payload of unknown type'')
 \<and> color (ea_example 2) = Inl (AttributeError ''Color of unknown type'')
 \<and> message (ea_example (- 1)) = Inl (AttributeError ''Message of unknown type'')"
  using decode_dispatch [of "ea_example 0"] decode_dispatch [of "ea_example 1"]
    decode_dispatch [of "ea_example 2"] decode_dispatch [of "ea_example 3"]
    decode_dispatch [of "ea_example 4"] decode_dispatch [of "ea_example (- 1)"]
  by (simp add: ea_example_def nvtx_constants read_char_p_def read_wchar_p_def hex_def
      hex_digits.simps hex_digit_def)

subsection \<open>Facade\<close>

text \<open>
  C8. With the library bound, a mark or a range push whose color, payload and category are
  all absent invokes the simple entry point with the message alone and builds no event
  record; when any of the three is present, it builds the record from all four arguments
  and invokes the extended entry point on it.
\<close>

theorem fast_path_selection:
  "profile_mark Bound msg None None None w = w\<lparr>calls := calls w @ [NvtxMarkA msg]\<rparr>
 \<and> events (profile_mark Bound msg None None None w) = events w
 \<and> profile_range_push Bound msg None None None w = w\<lparr>calls := calls w @ [NvtxRangePushA msg]\<rparr>
 \<and> events (profile_range_push Bound msg None None None w) = events w
 \<and> (col \<noteq> None \<or> pl \<noteq> None \<or> cat \<noteq> None \<longrightarrow>
       profile_mark Bound msg col pl cat w =
         w\<lparr>events := events w @ [create_event (Some msg) col pl cat],
           calls := calls w @ [NvtxMarkEx (create_event (Some msg) col pl cat)]\<rparr>
     \<and> profile_range_push Bound msg col pl cat w =
         w\<lparr>events := events w @ [create_event (Some msg) col pl cat],
           calls := calls w @ [NvtxRangePushEx (create_event (Some msg) col pl cat)]\<rparr>)"
  by (auto simp add: profile_mark_def profile_range_push_def Let_def)

theorem fast_path_selection_witness:
  "calls (profile_mark Bound ''x'' None None None (init_world (0::int))) = [NvtxMarkA ''x'']
 \<and> events (profile_mark Bound ''x'' None None None (init_world (0::int))) = []
 \<and> calls (profile_mark Bound ''x'' None None (Some 7) (init_world (0::int))) =
       [NvtxMarkEx (create_event (Some ''x'') None None (Some 7))]
 \<and> events (profile_range_push Bound ''x'' (Some 255) None None (init_world (0::int))) =
       [create_event (Some ''x'') (Some 255) None None]"
  using fast_path_selection [of "''x''" "init_world (0::int)" None None "Some 7"]
    fast_path_selection [of "''x''" "init_world (0::int)" "Some 255" None None]
  by (simp add: init_world_def)

text \<open>
  C2. When loading the library raised, or the library lacks one of the five entry points,
  the module binds the stubs; and under the stubs a mark, a range push and a range pop,
  with any arguments, return the world as it was: no entry point is invoked, no record is
  built, and the functions have no way to raise.
\<close>

theorem unavailable_is_noop:
  "profile_mark Unavailable msg col pl cat w = w
 \<and> profile_range_push Unavailable msg col pl cat w = w
 \<and> profile_range_pop Unavailable w = w
 \<and> (load_lib dlopen j environ platform = Inl e \<longrightarrow>
       module_binding dlopen j environ platform = Unavailable)
 \<and> (load_lib dlopen j environ platform = Inr exports \<and> s \<in> set entry_points \<and> s \<notin> set exports \<longrightarrow>
       module_binding dlopen j environ platform = Unavailable)"
  by (auto simp add: profile_mark_def profile_range_push_def profile_range_pop_def
      module_binding_def list_all_iff)

theorem unavailable_is_noop_witness:
  "module_binding dlopen_fails posixpath_join None ''linux'' = Unavailable
 \<and> module_binding dlopen_partial posixpath_join None ''linux'' = Unavailable
 \<and> profile_mark (module_binding dlopen_partial posixpath_join None ''linux'') ''x'' (Some 255) None None
       (init_world (0::int)) = init_world 0"
  using unavailable_is_noop [of "''x''" "Some 255" None None "init_world (0::int)" dlopen_fails posixpath_join
      None "''linux''" "Raised ''OSError''" "[''nvtxMarkA'', ''nvtxMarkEx'', ''nvtxRangePushEx'', ''nvtxRangePushA'']"
      "''nvtxRangePop''"]
    unavailable_is_noop [of "''x''" "Some 255" None None "init_world (0::int)" dlopen_partial posixpath_join
      None "''linux''" "Raised ''OSError''" "[''nvtxMarkA'', ''nvtxMarkEx'', ''nvtxRangePushEx'', ''nvtxRangePushA'']"
      "''nvtxRangePop''"]
  by (simp add: load_lib_def dlopen_fails_def dlopen_partial_def entry_points_def)

subsection \<open>Scoped ranges\<close>

lemma now_profile_range_push [simp]: "now (profile_range_push b name col pl cat w) = now w"
  by (simp add: profile_range_push_def Let_def split: binding.splits)

lemma profile_range_enter_eq:
  "profile_range_enter b name col pl cat w = (now w, profile_range_push b name col pl None w)"
  by (simp add: profile_range_enter_def Let_def)

lemma calls_push_simple:
  "calls (profile_range_push Bound name None None None w) = calls w @ [NvtxRangePushA name]"
  by (simp add: profile_range_push_def)

lemma calls_push_extended:
  "col \<noteq> None \<or> pl \<noteq> None \<or> cat \<noteq> None \<Longrightarrow>
   calls (profile_range_push Bound name col pl cat w) =
     calls w @ [NvtxRangePushEx (create_event (Some name) col pl cat)]"
  by (auto simp add: profile_range_push_def Let_def)

lemma category_create_event_None: "category (create_event msg col pl None) = 0"
  by (simp add: create_event_defs split: option.splits payload_arg.splits)

lemma profile_range_category_None:
  "profile_range b name col pl cat body w = profile_range b name col pl None body w"
  by (simp add: profile_range_def with_contextmanager_def profile_range_enter_eq)

lemma profile_range_unfold:
  "profile_range b name col pl cat body w =
     (case body (profile_range_push b name col pl None w) of
        (Inl e, w2) \<Rightarrow> (Inl e, w2)
      | (Inr r, w2) \<Rightarrow> (Inr r, profile_range_exit b name (now w) w2))"
  by (simp add: profile_range_def with_contextmanager_def profile_range_enter_eq)

text \<open>
  C10. Whatever category \<^verbatim>\<open>profile_range\<close> is given, the statement first calls the range
  push with the name, the color, the payload and the category \<^verbatim>\<open>None\<close>, and the enclosed
  block runs in the world that push leaves; so do \<^verbatim>\<open>profile_range_nvtx_only\<close> and a
  function wrapped by \<^verbatim>\<open>profiled\<close>. The category given changes nothing. With no color
  and no payload the push made is the simple one; otherwise the record pushed has
  category zero.
\<close>

theorem profile_range_discards_category:
  "profile_range_enter b name col pl cat w = (now w, profile_range_push b name col pl None w)
 \<and> profile_range b name col pl cat body w =
     (case body (profile_range_push b name col pl None w) of
        (Inl e, w2) \<Rightarrow> (Inl e, w2)
      | (Inr r, w2) \<Rightarrow> (Inr r, profile_range_exit b name (now w) w2))
 \<and> profile_range_nvtx_only b name col pl cat body w =
     (case body (profile_range_push b name col pl None w) of
        (Inl e, w2) \<Rightarrow> (Inl e, w2)
      | (Inr r, w2) \<Rightarrow> (Inr r, profile_range_pop b w2))
 \<and> profiled b name cat col pl func args w =
     (case func args (profile_range_push b name col pl None w) of
        (Inl e, w2) \<Rightarrow> (Inl e, w2)
      | (Inr r, w2) \<Rightarrow> (Inr r, profile_range_exit b name (now w) w2))
 \<and> profile_range b name col pl cat body w = profile_range b name col pl None body w
 \<and> profile_range_nvtx_only b name col pl cat body w = profile_range_nvtx_only b name col pl None body w
 \<and> profiled b name cat col pl func args w = profiled b name None col pl func args w
 \<and> calls (profile_range_push Bound name None None None w) = calls w @ [NvtxRangePushA name]
 \<and> (col \<noteq> None \<or> pl \<noteq> None \<longrightarrow>
       calls (profile_range_push Bound name col pl None w) =
         calls w @ [NvtxRangePushEx (create_event (Some name) col pl None)])
 \<and> calls (snd (profile_range_enter Bound name None None cat w)) = calls w @ [NvtxRangePushA name]
 \<and> (col \<noteq> None \<or> pl \<noteq> None \<longrightarrow>
       calls (snd (profile_range_enter Bound name col pl cat w)) =
         calls w @ [NvtxRangePushEx (create_event (Some name) col pl None)])
 \<and> category (create_event (Some name) col pl None) = 0"
proof -
  have 1: "profile_range_enter b name col pl cat w = (now w, profile_range_push b name col pl None w)"
    by (rule profile_range_enter_eq)
  have 2: "profile_range b name col pl cat body w =
     (case body (profile_range_push b name col pl None w) of
        (Inl e, w2) \<Rightarrow> (Inl e, w2)
      | (Inr r, w2) \<Rightarrow> (Inr r, profile_range_exit b name (now w) w2))"
    by (rule profile_range_unfold)
  have 3: "profile_range_nvtx_only b name col pl cat body w =
     (case body (profile_range_push b name col pl None w) of
        (Inl e, w2) \<Rightarrow> (Inl e, w2)
      | (Inr r, w2) \<Rightarrow> (Inr r, profile_range_pop b w2))"
    by (simp add: profile_range_nvtx_only_def with_contextmanager_def
        profile_range_nvtx_only_enter_def)
  have 4: "profiled b name cat col pl func args w =
     (case func args (profile_range_push b name col pl None w) of
        (Inl e, w2) \<Rightarrow> (Inl e, w2)
      | (Inr r, w2) \<Rightarrow> (Inr r, profile_range_exit b name (now w) w2))"
    unfolding profiled_def by (rule profile_range_unfold)
  have 5: "profile_range b name col pl cat body w = profile_range b name col pl None body w"
    by (rule profile_range_category_None)
  have 6: "profile_range_nvtx_only b name col pl cat body w =
      profile_range_nvtx_only b name col pl None body w"
    by (simp add: profile_range_nvtx_only_def with_contextmanager_def
        profile_range_nvtx_only_enter_def)
  have 7: "profiled b name cat col pl func args w = profiled b name None col pl func args w"
    unfolding profiled_def by (rule profile_range_category_None)
  have 8: "calls (profile_range_push Bound name None None None w) = calls w @ [NvtxRangePushA name]"
    by (rule calls_push_simple)
  have 9: "col \<noteq> None \<or> pl \<noteq> None \<longrightarrow>
       calls (profile_range_push Bound name col pl None w) =
         calls w @ [NvtxRangePushEx (create_event (Some name) col pl None)]"
    using calls_push_extended [of col pl None name w] by blast
  have 10: "calls (snd (profile_range_enter Bound name None None cat w)) = calls w @ [NvtxRangePushA name]"
    by (simp add: profile_range_enter_eq calls_push_simple)
  have 11: "col \<noteq> None \<or> pl \<noteq> None \<longrightarrow>
       calls (snd (profile_range_enter Bound name col pl cat w)) =
         calls w @ [NvtxRangePushEx (create_event (Some name) col pl None)]"
    using 9 by (simp add: profile_range_enter_eq)
  have 12: "category (create_event (Some name) col pl None) = 0"
    by (rule category_create_event_None)
  from 1 2 3 4 5 6 7 8 9 10 11 12 show ?thesis by blast
qed

theorem profile_range_discards_category_witness:
  "calls (snd (profile_range Bound ''x'' (Some 255) None (Some 7) (timed_block 5) (init_world (0::int)))) =
       [NvtxRangePushEx (create_event (Some ''x'') (Some 255) None None), NvtxRangePop]
 \<and> calls (snd (profile_range Bound ''x'' None None (Some 7) (timed_block 5) (init_world (0::int)))) =
       [NvtxRangePushA ''x'', NvtxRangePop]
 \<and> calls (snd (profiled Bound ''x'' (Some 7) None None (\<lambda>u. timed_block 5) () (init_world (0::int)))) =
       [NvtxRangePushA ''x'', NvtxRangePop]
 \<and> calls (snd (profile_range_nvtx_only Bound ''x'' None None (Some 7) (timed_block 5) (init_world (0::int)))) =
       [NvtxRangePushA ''x'', NvtxRangePop]
 \<and> calls (snd (profile_range_enter Bound ''x'' None None (Some 7) (init_world (0::int)))) = [NvtxRangePushA ''x'']
 \<and> calls (snd (profile_range_enter Bound ''x'' (Some 255) None (Some 7) (init_world (0::int)))) =
       [NvtxRangePushEx (create_event (Some ''x'') (Some 255) None None)]
 \<and> category (create_event (Some ''x'') (Some 255) None None) = 0"
  using profile_range_discards_category [of Bound "''x''" "Some 255" None "Some 7" "init_world (0::int)"
      "timed_block 5" "\<lambda>u. timed_block 5" "()"]
    profile_range_discards_category [of Bound "''x''" None None "Some 7" "init_world (0::int)"
      "timed_block 5" "\<lambda>u. timed_block 5" "()"]
  by (simp add: init_world_def profile_range_enter_def profile_range_push_def profile_range_pop_def
      profile_range_exit_def dict_get_def stats_ref_def timed_block_def Let_def)

lemma profile_range_normal:
  "body (profile_range_push b name col pl None w) = (Inr r, w2) \<Longrightarrow>
   profile_range b name col pl cat body w = (Inr r, profile_range_exit b name (now w) w2)"
  by (simp add: profile_range_def with_contextmanager_def profile_range_enter_eq)

lemma profile_range_raises:
  "body (profile_range_push b name col pl None w) = (Inl e, w2) \<Longrightarrow>
   profile_range b name col pl cat body w = (Inl e, w2)"
  by (simp add: profile_range_def with_contextmanager_def profile_range_enter_eq)

lemma calls_profile_range_exit:
  "calls (profile_range_exit Bound name t w) = calls w @ [NvtxRangePop]"
  by (simp add: profile_range_exit_def profile_range_pop_def Let_def split: option.splits)

lemma counts_push:
  "range_pushes (calls (profile_range_push Bound name col pl cat w)) = range_pushes (calls w) + 1
 \<and> range_pops (calls (profile_range_push Bound name col pl cat w)) = range_pops (calls w)"
  by (simp add: profile_range_push_def range_pushes_def range_pops_def is_push_def Let_def)

text \<open>
  C1 (as the code has it). Entering \<^verbatim>\<open>profile_range\<close> makes exactly one range push and no
  range pop. When the enclosed block ends normally, the statement returns the block's
  result and makes exactly one more native call after the block, the range pop. When the
  block raises, the exception leaves the statement and nothing runs after the block: the
  push stays without its pop.
\<close>

theorem profile_range_push_pop:
  "range_pushes (calls (snd (profile_range_enter Bound name col pl cat w))) = range_pushes (calls w) + 1
 \<and> range_pops (calls (snd (profile_range_enter Bound name col pl cat w))) = range_pops (calls w)
 \<and> (body (snd (profile_range_enter Bound name col pl cat w)) = (Inr r, w2) \<longrightarrow>
       fst (profile_range Bound name col pl cat body w) = Inr r
     \<and> calls (snd (profile_range Bound name col pl cat body w)) = calls w2 @ [NvtxRangePop])
 \<and> (body (snd (profile_range_enter Bound name col pl cat w)) = (Inl e, w2) \<longrightarrow>
       profile_range Bound name col pl cat body w = (Inl e, w2))"
  by (simp add: profile_range_enter_eq counts_push profile_range_normal profile_range_raises
      calls_profile_range_exit)

theorem profile_range_push_pop_witness:
  "calls (snd (profile_range Bound ''x'' None None None (timed_block 5) (init_world (2::int)))) =
     [NvtxRangePushA ''x'', NvtxRangePop]
 \<and> profile_range Bound ''x'' None None None (failing_block (Raised ''boom'')) (init_world (2::int)) =
     (Inl (Raised ''boom''), (init_world 2)\<lparr>calls := [NvtxRangePushA ''x'']\<rparr>)"
  using profile_range_push_pop [of "''x''" None None None "init_world (2::int)" "timed_block 5" "()"
      "(init_world 2)\<lparr>calls := [NvtxRangePushA ''x''], now := 5\<rparr>" "Raised ''boom''"]
    profile_range_push_pop [of "''x''" None None None "init_world (2::int)" "failing_block (Raised ''boom'')" "()"
      "(init_world 2)\<lparr>calls := [NvtxRangePushA ''x'']\<rparr>" "Raised ''boom''"]
  by (simp add: profile_range_enter_def profile_range_push_def Let_def init_world_def timed_block_def
      failing_block_def)

text \<open>
  With a block that raises, one range push has been made and no range pop.
\<close>

theorem profile_range_raise_counterexample:
  "range_pushes (calls (snd (profile_range Bound ''x'' None None None (failing_block (Raised ''boom''))
      (init_world (0::int))))) = 1
 \<and> range_pops (calls (snd (profile_range Bound ''x'' None None None (failing_block (Raised ''boom''))
      (init_world (0::int))))) = 0"
  by (simp add: profile_range_def with_contextmanager_def profile_range_enter_def profile_range_push_def
      Let_def init_world_def failing_block_def range_pushes_def range_pops_def is_push_def)

subsection \<open>Statistics\<close>

lemma map_of_dict_update: "map_of (dict_update k v al) = (map_of al)(k \<mapsto> v)"
  by (induction al) auto

lemma set_dict_update: "set (dict_update k v al) \<subseteq> insert (k, v) (set al)"
  by (induction al) auto

lemma map_of_dict_value:
  "map_of (dict_value w d) k = map_option (\<lambda>a. lists w ! a) (map_of (dicts w ! d) k)"
proof -
  have "map_of (map (\<lambda>ka. (fst ka, f (snd ka))) al) k = map_option f (map_of al k)"
    for f :: "addr \<Rightarrow> int \<times> 'a" and al
    by (induction al) auto
  then show ?thesis by (simp add: dict_value_def)
qed

lemma wf_world_stats:
  assumes "wf_world w" and "map_of (dicts w ! stats_ref) k = Some a"
  shows "a < length (lists w)"
proof -
  from assms(1) have "dicts w ! stats_ref \<in> set (dicts w)"
    by (simp add: wf_world_def)
  with assms(1) have "\<forall>ka \<in> set (dicts w ! stats_ref). snd ka < length (lists w)"
    by (auto simp add: wf_world_def list_all_iff)
  moreover from assms(2) have "(k, a) \<in> set (dicts w ! stats_ref)"
    by (rule map_of_SomeD)
  ultimately show ?thesis by fastforce
qed

lemma wf_world_cong:
  "dicts w' = dicts w \<Longrightarrow> lists w' = lists w \<Longrightarrow> wf_world w' = wf_world w"
  by (simp add: wf_world_def)

lemma dict_get_cong:
  "dicts w' = dicts w \<Longrightarrow> dict_get w' d k = dict_get w d k"
  by (simp add: dict_get_def)

lemma dicts_profile_range_push [simp]: "dicts (profile_range_push b name col pl cat w) = dicts w"
  by (simp add: profile_range_push_def Let_def split: binding.splits)

lemma lists_profile_range_push [simp]: "lists (profile_range_push b name col pl cat w) = lists w"
  by (simp add: profile_range_push_def Let_def split: binding.splits)

lemma dicts_profile_range_pop [simp]: "dicts (profile_range_pop b w) = dicts w"
  by (simp add: profile_range_pop_def split: binding.splits)

lemma lists_profile_range_pop [simp]: "lists (profile_range_pop b w) = lists w"
  by (simp add: profile_range_pop_def split: binding.splits)

lemma exit_present:
  assumes "dict_get w stats_ref name = Some a"
  shows "dicts (profile_range_exit b name t w) = dicts w"
    and "lists (profile_range_exit b name t w) =
           (lists w)[a := (fst (lists w ! a) + 1, snd (lists w ! a) + (now w - t))]"
  using assms by (simp_all add: profile_range_exit_def Let_def)

lemma exit_absent:
  assumes "dict_get w stats_ref name = None"
  shows "dicts (profile_range_exit b name t w) =
           (dicts w)[stats_ref := dict_update name (length (lists w)) (dicts w ! stats_ref)]"
    and "lists (profile_range_exit b name t w) = lists w @ [(1, now w - t)]"
  using assms by (simp_all add: profile_range_exit_def Let_def)

lemma exit_present_value:
  assumes wf: "wf_world w" and get: "dict_get w stats_ref name = Some a"
  shows "map_of (dict_value (profile_range_exit b name t w) stats_ref) name =
           Some (fst (lists w ! a) + 1, snd (lists w ! a) + (now w - t))"
proof -
  from wf have ref: "stats_ref < length (dicts w)" by (simp add: wf_world_def)
  with get have m: "map_of (dicts w ! stats_ref) name = Some a" by (simp add: dict_get_def)
  with wf have "a < length (lists w)" by (rule wf_world_stats)
  with m show ?thesis by (simp add: map_of_dict_value exit_present [OF get])
qed

lemma exit_absent_value:
  assumes wf: "wf_world w" and get: "dict_get w stats_ref name = None"
  shows "map_of (dict_value (profile_range_exit b name t w) stats_ref) =
           (map_of (dict_value w stats_ref))(name \<mapsto> (1, now w - t))"
proof
  fix k
  from wf have ref: "stats_ref < length (dicts w)" by (simp add: wf_world_def)
  show "map_of (dict_value (profile_range_exit b name t w) stats_ref) k =
          ((map_of (dict_value w stats_ref))(name \<mapsto> (1, now w - t))) k"
  proof (cases "k = name")
    case True
    with ref show ?thesis
      by (simp add: map_of_dict_value exit_absent [OF get] map_of_dict_update)
  next
    case False
    show ?thesis
    proof (cases "map_of (dicts w ! stats_ref) k")
      case None
      with False ref show ?thesis
        by (simp add: map_of_dict_value exit_absent [OF get] map_of_dict_update)
    next
      case (Some a)
      with wf have "a < length (lists w)" by (rule wf_world_stats)
      with Some False ref show ?thesis
        by (simp add: map_of_dict_value exit_absent [OF get] map_of_dict_update nth_append)
    qed
  qed
qed

lemma list_all_update:
  "list_all P xs \<Longrightarrow> P y \<Longrightarrow> list_all P (xs[i := y])"
  using set_update_subset_insert [of xs i y] by (auto simp add: list_all_iff)

lemma wf_world_exit:
  assumes wf: "wf_world w"
  shows "wf_world (profile_range_exit b name t w)"
proof (cases "dict_get w stats_ref name")
  case None
  let ?n = "length (lists w)"
  from wf have ref: "stats_ref < length (dicts w)" by (simp add: wf_world_def)
  from wf have old: "list_all (\<lambda>d. list_all (\<lambda>ka. snd ka < Suc ?n) d) (dicts w)"
    by (simp add: wf_world_def list_all_iff less_SucI)
  with ref have "list_all (\<lambda>ka. snd ka < Suc ?n) (dicts w ! stats_ref)"
    using nth_mem [OF ref] by (auto simp add: list_all_iff)
  then have "list_all (\<lambda>ka. snd ka < Suc ?n) (dict_update name ?n (dicts w ! stats_ref))"
    using set_dict_update [of name ?n "dicts w ! stats_ref"] by (auto simp add: list_all_iff)
  with old have "list_all (\<lambda>d. list_all (\<lambda>ka. snd ka < Suc ?n) d)
      ((dicts w)[stats_ref := dict_update name ?n (dicts w ! stats_ref)])"
    by (rule list_all_update)
  with ref show ?thesis by (simp add: wf_world_def exit_absent [OF None])
next
  case (Some a)
  with wf show ?thesis by (simp add: wf_world_def exit_present [OF Some])
qed

lemma profile_range_timed:
  "snd (profile_range b name None None None (timed_block e) (w\<lparr>now := s\<rparr>)) =
     profile_range_exit b name s ((profile_range_push b name None None None (w\<lparr>now := s\<rparr>))\<lparr>now := e\<rparr>)"
  by (simp add: profile_range_def with_contextmanager_def profile_range_enter_eq timed_block_def)

lemma profile_ranges_accumulate:
  "wf_world w \<Longrightarrow> dict_get w stats_ref name = Some a \<Longrightarrow> lists w ! a = (c, tot) \<Longrightarrow>
   map_of (dict_value (profile_ranges b name ses w) stats_ref) name =
     Some (c + int (length ses), foldl (+) tot (map (\<lambda>se. snd se - fst se) ses))"
proof (induction ses arbitrary: w c tot)
  case Nil
  from Nil(1) have "stats_ref < length (dicts w)" by (simp add: wf_world_def)
  with Nil show ?case by (simp add: map_of_dict_value dict_get_def)
next
  case (Cons se ses)
  let ?w1 = "(profile_range_push b name None None None (w\<lparr>now := fst se\<rparr>))\<lparr>now := snd se\<rparr>"
  let ?w2 = "profile_range_exit b name (fst se) ?w1"
  have wf1: "wf_world ?w1" using Cons.prems(1) by (simp add: wf_world_def)
  have "dict_get ?w1 stats_ref name = dict_get w stats_ref name" by (simp add: dict_get_def)
  with Cons.prems(2) have get1: "dict_get ?w1 stats_ref name = Some a" by simp
  from Cons.prems(1) have ref: "stats_ref < length (dicts w)" by (simp add: wf_world_def)
  with Cons.prems(2) have "map_of (dicts w ! stats_ref) name = Some a" by (simp add: dict_get_def)
  with Cons.prems(1) have a: "a < length (lists w)" by (rule wf_world_stats)
  have wf2: "wf_world ?w2" using wf1 by (rule wf_world_exit)
  have "dict_get ?w2 stats_ref name = dict_get ?w1 stats_ref name"
    by (simp add: dict_get_def exit_present [OF get1])
  with get1 have get2: "dict_get ?w2 stats_ref name = Some a" by simp
  have cell: "lists ?w2 ! a = (c + 1, tot + (snd se - fst se))"
    using a Cons.prems(3) by (simp add: exit_present [OF get1])
  have "map_of (dict_value (profile_ranges b name ses ?w2) stats_ref) name =
      Some (c + 1 + int (length ses), foldl (+) (tot + (snd se - fst se)) (map (\<lambda>se. snd se - fst se) ses))"
    using wf2 get2 cell by (rule Cons.IH)
  then show ?case by (simp add: profile_range_timed)
qed

text \<open>
  C3 (as the code has it). When the enclosed block ends normally, \<^verbatim>\<open>profile_range\<close> updates
  the statistics of its name with the elapsed time, the clock at the end of the block
  minus the clock at entry: a name without an entry gets the entry (1, elapsed) and the
  other entries keep their values; a name with an entry keeps its list object, whose count
  grows by one and whose total grows by the elapsed time. So \<open>n\<close> statements in a row on a
  name without an entry, each ending normally, leave the count \<open>n\<close> and the total
  \<open>d1 + ... + dn\<close>, added in that order. When the block raises, the exception leaves the
  statement and nothing is recorded: the dict and the list objects are those the block
  left.
\<close>

theorem profile_range_records:
  "(wf_world w2 \<and> body (snd (profile_range_enter b name col pl cat w)) = (Inr r, w2) \<and>
    dict_get w2 stats_ref name = None \<longrightarrow>
      map_of (dict_value (snd (profile_range b name col pl cat body w)) stats_ref) =
        (map_of (dict_value w2 stats_ref))(name \<mapsto> (1, now w2 - now w)))
 \<and> (wf_world w2 \<and> body (snd (profile_range_enter b name col pl cat w)) = (Inr r, w2) \<and>
    dict_get w2 stats_ref name = Some a \<longrightarrow>
      dicts (snd (profile_range b name col pl cat body w)) = dicts w2
    \<and> lists (snd (profile_range b name col pl cat body w)) =
        (lists w2)[a := (fst (lists w2 ! a) + 1, snd (lists w2 ! a) + (now w2 - now w))]
    \<and> map_of (dict_value (snd (profile_range b name col pl cat body w)) stats_ref) name =
        Some (fst (lists w2 ! a) + 1, snd (lists w2 ! a) + (now w2 - now w)))
 \<and> (wf_world w0 \<and> dict_get w0 stats_ref name = None \<longrightarrow>
      map_of (dict_value (profile_ranges b name ((s, e) # ses) w0) stats_ref) name =
        Some (1 + int (length ses), foldl (+) (e - s) (map (\<lambda>se. snd se - fst se) ses)))
 \<and> (body (snd (profile_range_enter b name col pl cat w)) = (Inl ex, w2) \<longrightarrow>
      profile_range b name col pl cat body w = (Inl ex, w2)
    \<and> dicts (snd (profile_range b name col pl cat body w)) = dicts w2
    \<and> lists (snd (profile_range b name col pl cat body w)) = lists w2
    \<and> dict_value (snd (profile_range b name col pl cat body w)) stats_ref = dict_value w2 stats_ref)"
proof -
  have first: "map_of (dict_value (profile_ranges b name ((s, e) # ses) w0) stats_ref) name =
        Some (1 + int (length ses), foldl (+) (e - s) (map (\<lambda>se. snd se - fst se) ses))"
    if wf: "wf_world w0" and get: "dict_get w0 stats_ref name = None"
  proof -
    let ?w1 = "(profile_range_push b name None None None (w0\<lparr>now := s\<rparr>))\<lparr>now := e\<rparr>"
    let ?w2 = "profile_range_exit b name s ?w1"
    let ?a = "length (lists w0)"
    have wf1: "wf_world ?w1" using wf by (simp add: wf_world_def)
    have "dict_get ?w1 stats_ref name = dict_get w0 stats_ref name" by (simp add: dict_get_def)
    with get have get1: "dict_get ?w1 stats_ref name = None" by simp
    from wf have ref: "stats_ref < length (dicts w0)" by (simp add: wf_world_def)
    have wf2: "wf_world ?w2" using wf1 by (rule wf_world_exit)
    have get2: "dict_get ?w2 stats_ref name = Some ?a"
      using ref by (simp add: dict_get_def exit_absent [OF get1] map_of_dict_update)
    have cell: "lists ?w2 ! ?a = (1, e - s)"
      by (simp add: exit_absent [OF get1])
    have "map_of (dict_value (profile_ranges b name ses ?w2) stats_ref) name =
        Some (1 + int (length ses), foldl (+) (e - s) (map (\<lambda>se. snd se - fst se) ses))"
      using wf2 get2 cell by (rule profile_ranges_accumulate)
    then show ?thesis by (simp add: profile_range_timed)
  qed
  have run: "profile_range b name col pl cat body w = (Inr r, profile_range_exit b name (now w) w2)"
    if "body (snd (profile_range_enter b name col pl cat w)) = (Inr r, w2)"
    using that by (simp add: profile_range_enter_eq profile_range_normal)
  show ?thesis
  proof (intro conjI impI)
    assume h: "wf_world w2 \<and> body (snd (profile_range_enter b name col pl cat w)) = (Inr r, w2) \<and>
      dict_get w2 stats_ref name = None"
    then show "map_of (dict_value (snd (profile_range b name col pl cat body w)) stats_ref) =
        (map_of (dict_value w2 stats_ref))(name \<mapsto> (1, now w2 - now w))"
      by (simp add: run exit_absent_value)
  next
    assume h: "wf_world w2 \<and> body (snd (profile_range_enter b name col pl cat w)) = (Inr r, w2) \<and>
      dict_get w2 stats_ref name = Some a"
    then show "dicts (snd (profile_range b name col pl cat body w)) = dicts w2"
      by (simp add: run exit_present)
  next
    assume h: "wf_world w2 \<and> body (snd (profile_range_enter b name col pl cat w)) = (Inr r, w2) \<and>
      dict_get w2 stats_ref name = Some a"
    then show "lists (snd (profile_range b name col pl cat body w)) =
        (lists w2)[a := (fst (lists w2 ! a) + 1, snd (lists w2 ! a) + (now w2 - now w))]"
      by (simp add: run exit_present)
  next
    assume h: "wf_world w2 \<and> body (snd (profile_range_enter b name col pl cat w)) = (Inr r, w2) \<and>
      dict_get w2 stats_ref name = Some a"
    then show "map_of (dict_value (snd (profile_range b name col pl cat body w)) stats_ref) name =
        Some (fst (lists w2 ! a) + 1, snd (lists w2 ! a) + (now w2 - now w))"
      by (simp add: run exit_present_value)
  next
    assume "wf_world w0 \<and> dict_get w0 stats_ref name = None"
    then show "map_of (dict_value (profile_ranges b name ((s, e) # ses) w0) stats_ref) name =
        Some (1 + int (length ses), foldl (+) (e - s) (map (\<lambda>se. snd se - fst se) ses))"
      using first by simp
  next
    assume "body (snd (profile_range_enter b name col pl cat w)) = (Inl ex, w2)"
    then have raised: "profile_range b name col pl cat body w = (Inl ex, w2)"
      by (simp add: profile_range_enter_eq profile_range_raises)
    then show "profile_range b name col pl cat body w = (Inl ex, w2)" .
    from raised show "dicts (snd (profile_range b name col pl cat body w)) = dicts w2" by simp
    from raised show "lists (snd (profile_range b name col pl cat body w)) = lists w2" by simp
    from raised show "dict_value (snd (profile_range b name col pl cat body w)) stats_ref =
        dict_value w2 stats_ref" by simp
  qed
qed


theorem profile_range_records_witness:
  "map_of (dict_value (snd (profile_range Bound ''x'' None None None (timed_block 5) (init_world (2::int))))
     stats_ref) ''x'' = Some (1, 3)
 \<and> map_of (dict_value (snd (profile_range Bound ''x'' None None None (timed_block 14)
       \<lparr>calls = [], events = [], now = 10::int, dicts = [[(''x'', 0)]], lists = [(1, 3)]\<rparr>))
     stats_ref) ''x'' = Some (2, 7)
 \<and> map_of (dict_value (profile_ranges Bound ''x'' [(2, 5), (10, 14), (20, 21)] (init_world (0::int)))
     stats_ref) ''x'' = Some (3, 8)
 \<and> dict_value (snd (profile_range Bound ''x'' None None None (failing_block (Raised ''boom''))
       \<lparr>calls = [], events = [], now = 10::int, dicts = [[(''x'', 0)]], lists = [(1, 3)]\<rparr>))
     stats_ref = [(''x'', 1, 3)]"
  using profile_range_records [of "(init_world 2)\<lparr>calls := [NvtxRangePushA ''x''], now := 5\<rparr>"
      "timed_block 5" Bound "''x''" None None None "init_world (2::int)" "()" 0
      "init_world (0::int)" 2 5 "[(10, 14), (20, 21)]" "Raised ''boom''"]
    profile_range_records [of
      "\<lparr>calls = [NvtxRangePushA ''x''], events = [], now = 14::int, dicts = [[(''x'', 0)]], lists = [(1, 3)]\<rparr>"
      "timed_block 14" Bound "''x''" None None None
      "\<lparr>calls = [], events = [], now = 10::int, dicts = [[(''x'', 0)]], lists = [(1, 3)]\<rparr>" "()" 0
      "init_world (0::int)" 2 5 "[(10, 14), (20, 21)]" "Raised ''boom''"]
    profile_range_records [of
      "\<lparr>calls = [NvtxRangePushA ''x''], events = [], now = 10::int, dicts = [[(''x'', 0)]], lists = [(1, 3)]\<rparr>"
      "failing_block (Raised ''boom'')" Bound "''x''" None None None
      "\<lparr>calls = [], events = [], now = 10::int, dicts = [[(''x'', 0)]], lists = [(1, 3)]\<rparr>" "()" 0
      "init_world (0::int)" 2 5 "[(10, 14), (20, 21)]" "Raised ''boom''"]
  by (simp add: wf_world_def init_world_def timed_block_def failing_block_def profile_range_def
      with_contextmanager_def profile_range_enter_def profile_range_exit_def profile_range_push_def
      profile_range_pop_def dict_get_def stats_ref_def dict_value_def Let_def)

text \<open>
  With a block that raises, the name has no entry afterwards; with a block that ends
  normally, it has.
\<close>

theorem profile_range_raise_stats_counterexample:
  "dict_value (snd (profile_range Bound ''x'' None None None (failing_block (Raised ''boom''))
      (init_world (0::int)))) stats_ref = []
 \<and> dict_value (snd (profile_range Bound ''x'' None None None (timed_block 3)
      (init_world (0::int)))) stats_ref = [(''x'', 1, 3)]"
  by (simp add: profile_range_def with_contextmanager_def profile_range_enter_def profile_range_push_def
      profile_range_exit_def profile_range_pop_def dict_get_def
      Let_def init_world_def failing_block_def timed_block_def dict_value_def stats_ref_def)

subsection \<open>Statistics snapshot\<close>

lemma deepcopy_items_inv:
  assumes "deepcopy_items items memo ls = (r, memo', ls')"
    and "\<forall>ka \<in> set items. snd ka < length L"
    and "\<exists>ext. ls = L @ ext"
    and "\<forall>a a'. memo a = Some a' \<longrightarrow> length L \<le> a' \<and> a' < length ls \<and> ls ! a' = L ! a"
  shows "(\<exists>ext. ls' = ls @ ext)
       \<and> (\<forall>a a'. memo' a = Some a' \<longrightarrow> length L \<le> a' \<and> a' < length ls' \<and> ls' ! a' = L ! a)
       \<and> (\<forall>ka \<in> set r. length L \<le> snd ka \<and> snd ka < length ls')
       \<and> map (\<lambda>ka. (fst ka, ls' ! snd ka)) r = map (\<lambda>ka. (fst ka, L ! snd ka)) items"
  using assms
proof (induction items arbitrary: memo ls r memo' ls')
  case Nil
  then show ?case by auto
next
  case (Cons ka kvs)
  obtain k a where ka: "ka = (k, a)" by (cases ka)
  from Cons.prems(2) ka have a: "a < length L" and kvs: "\<forall>ka \<in> set kvs. snd ka < length L"
    by simp_all
  from Cons.prems(3) obtain ext0 where ls: "ls = L @ ext0" by blast
  show ?case
  proof (cases "memo a")
    case (Some a')
    obtain r0 where rec: "deepcopy_items kvs memo ls = (r0, memo', ls')" and r: "r = (k, a') # r0"
      using Cons.prems(1) ka Some by (auto split: prod.splits)
    note ih = Cons.IH [OF rec kvs Cons.prems(3) Cons.prems(4)]
    from ih obtain ext where ls': "ls' = ls @ ext" by blast
    from Cons.prems(4) Some have a': "length L \<le> a'" "a' < length ls" "ls ! a' = L ! a"
      by blast+
    from a' ls' have "a' < length ls'" "ls' ! a' = L ! a"
      by (simp_all add: nth_append)
    with ih a'(1) show ?thesis by (simp add: r ka)
  next
    case None
    let ?memo = "memo(a \<mapsto> length ls)" and ?ls = "ls @ [ls ! a]"
    obtain r0 where rec: "deepcopy_items kvs ?memo ?ls = (r0, memo', ls')"
      and r: "r = (k, length ls) # r0"
      using Cons.prems(1) ka None by (auto split: prod.splits)
    from ls a have cell: "ls ! a = L ! a" by (simp add: nth_append)
    have ext: "\<exists>ext. ?ls = L @ ext" using ls by simp
    have memo: "\<forall>b b'. ?memo b = Some b' \<longrightarrow> length L \<le> b' \<and> b' < length ?ls \<and> ?ls ! b' = L ! b"
    proof (intro allI impI)
      fix b b'
      assume m: "?memo b = Some b'"
      show "length L \<le> b' \<and> b' < length ?ls \<and> ?ls ! b' = L ! b"
      proof (cases "b = a")
        case True
        with m have "b' = length ls" by simp
        with True ls cell show ?thesis by simp
      next
        case False
        with m have "memo b = Some b'" by simp
        with Cons.prems(4) have "length L \<le> b'" "b' < length ls" "ls ! b' = L ! b" by blast+
        then show ?thesis by (simp add: nth_append)
      qed
    qed
    note ih = Cons.IH [OF rec kvs ext memo]
    from ih obtain ext' where ls': "ls' = ?ls @ ext'" by blast
    then have 1: "\<exists>ext. ls' = ls @ ext" by simp
    from ls' cell have 2: "ls' ! length ls = L ! a" by (simp add: nth_append)
    from ls' have 3: "length ls < length ls'" by simp
    from ls have 4: "length L \<le> length ls" by simp
    from ih 1 2 3 4 show ?thesis by (simp add: r ka)
  qed
qed

lemma getstats_copy:
  assumes bound: "\<forall>ka \<in> set (dicts w ! stats_ref). snd ka < length (lists w)"
    and get: "getstats w = (r, w1)"
  shows "r = length (dicts w)"
    and "take (length (dicts w)) (dicts w1) = dicts w"
    and "take (length (lists w)) (lists w1) = lists w"
    and "r < length (dicts w1)"
    and "\<forall>ka \<in> set (dicts w1 ! r). length (lists w) \<le> snd ka"
    and "dict_value w1 r = dict_value w stats_ref"
proof -
  obtain items memo ls where dc: "deepcopy_items (dicts w ! stats_ref) Map.empty (lists w) = (items, memo, ls)"
    by (cases "deepcopy_items (dicts w ! stats_ref) Map.empty (lists w)") auto
  with get have r: "r = length (dicts w)" and w1: "w1 = w\<lparr>dicts := dicts w @ [items], lists := ls\<rparr>"
    by (simp_all add: getstats_def)
  have inv: "(\<exists>ext. ls = lists w @ ext)
       \<and> (\<forall>a a'. memo a = Some a' \<longrightarrow> length (lists w) \<le> a' \<and> a' < length ls \<and> ls ! a' = lists w ! a)
       \<and> (\<forall>ka \<in> set items. length (lists w) \<le> snd ka \<and> snd ka < length ls)
       \<and> map (\<lambda>ka. (fst ka, ls ! snd ka)) items = map (\<lambda>ka. (fst ka, lists w ! snd ka)) (dicts w ! stats_ref)"
    by (rule deepcopy_items_inv [OF dc bound]) simp_all
  then obtain ext where ls: "ls = lists w @ ext" by blast
  show "r = length (dicts w)" by (fact r)
  show "take (length (dicts w)) (dicts w1) = dicts w" by (simp add: w1)
  show "take (length (lists w)) (lists w1) = lists w" by (simp add: w1 ls)
  show "r < length (dicts w1)" by (simp add: w1 r)
  show "\<forall>ka \<in> set (dicts w1 ! r). length (lists w) \<le> snd ka" using inv by (simp add: w1 r)
  show "dict_value w1 r = dict_value w stats_ref" using inv by (simp add: dict_value_def w1 r)
qed

lemma take_length_le: "take m xs = L \<Longrightarrow> length L = m \<Longrightarrow> m \<le> length xs"
  by auto

lemma dict_get_mem: "dict_get w d k = Some a \<Longrightarrow> (k, a) \<in> set (dicts w ! d)"
  by (auto simp add: dict_get_def dest: map_of_SomeD split: if_splits)

lemma mutate_separate:
  assumes D: "take n (dicts w) = D" "length D = n"
    and L: "take m (lists w) = L" "length L = m"
    and r: "n \<le> r" "r < length (dicts w)"
    and refs: "\<forall>ka \<in> set (dicts w ! r). m \<le> snd ka"
  shows "take n (dicts (mutate r mu w)) = D \<and> take m (lists (mutate r mu w)) = L
       \<and> r < length (dicts (mutate r mu w)) \<and> (\<forall>ka \<in> set (dicts (mutate r mu w) ! r). m \<le> snd ka)"
proof -
  from L have m: "m \<le> length (lists w)" by (rule take_length_le)
  show ?thesis
  proof (cases mu)
    case (SetItem k c t)
    have "\<forall>ka \<in> set (dict_update k (length (lists w)) (dicts w ! r)). m \<le> snd ka"
      using set_dict_update [of k "length (lists w)" "dicts w ! r"] refs m by auto
    with D L r m show ?thesis by (simp add: SetItem)
  next
    case (SetAlias k k')
    show ?thesis
    proof (cases "dict_get w r k'")
      case None
      with D L r refs show ?thesis by (simp add: SetAlias)
    next
      case (Some a)
      then have "m \<le> a" using refs dict_get_mem by fastforce
      then have "\<forall>ka \<in> set (dict_update k a (dicts w ! r)). m \<le> snd ka"
        using set_dict_update [of k a "dicts w ! r"] refs by auto
      with D L r Some show ?thesis by (simp add: SetAlias)
    qed
  next
    case (DelItem k)
    with D L r refs show ?thesis by simp
  next
    case Clear
    with D L r refs show ?thesis by simp
  next
    case (SetCount k c)
    show ?thesis
    proof (cases "dict_get w r k")
      case None
      with D L r refs show ?thesis by (simp add: SetCount)
    next
      case (Some a)
      then have "m \<le> a" using refs dict_get_mem by fastforce
      with D L r refs Some show ?thesis by (simp add: SetCount)
    qed
  next
    case (SetTotal k t)
    show ?thesis
    proof (cases "dict_get w r k")
      case None
      with D L r refs show ?thesis by (simp add: SetTotal)
    next
      case (Some a)
      then have "m \<le> a" using refs dict_get_mem by fastforce
      with D L r refs Some show ?thesis by (simp add: SetTotal)
    qed
  qed
qed

lemma mutate_all_separate:
  assumes "take n (dicts w) = D" "length D = n" "take m (lists w) = L" "length L = m"
    "n \<le> r" "r < length (dicts w)" "\<forall>ka \<in> set (dicts w ! r). m \<le> snd ka"
  shows "take n (dicts (mutate_all r ms w)) = D \<and> take m (lists (mutate_all r ms w)) = L"
  using assms
proof (induction ms arbitrary: w)
  case Nil
  then show ?case by (simp add: mutate_all_def)
next
  case (Cons mu ms)
  have step: "take n (dicts (mutate r mu w)) = D \<and> take m (lists (mutate r mu w)) = L
       \<and> r < length (dicts (mutate r mu w)) \<and> (\<forall>ka \<in> set (dicts (mutate r mu w) ! r). m \<le> snd ka)"
    using Cons.prems by (rule mutate_separate)
  have "take n (dicts (mutate_all r ms (mutate r mu w))) = D
      \<and> take m (lists (mutate_all r ms (mutate r mu w))) = L"
    using step Cons.prems(2,4,5) by (intro Cons.IH) simp_all
  then show ?case by (simp add: mutate_all_def)
qed

lemma dict_value_frame:
  assumes wf: "wf_world w"
    and D: "take (length (dicts w)) (dicts w') = dicts w"
    and L: "take (length (lists w)) (lists w') = lists w"
  shows "dicts w' ! stats_ref = dicts w ! stats_ref"
    and "\<forall>ka \<in> set (dicts w' ! stats_ref). snd ka < length (lists w')"
    and "dict_value w' stats_ref = dict_value w stats_ref"
proof -
  from wf have ref: "stats_ref < length (dicts w)" by (simp add: wf_world_def)
  from wf have old: "\<forall>ka \<in> set (dicts w ! stats_ref). snd ka < length (lists w)"
    using nth_mem [OF ref] by (auto simp add: wf_world_def list_all_iff)
  have "take (length (dicts w)) (dicts w') ! stats_ref = dicts w' ! stats_ref"
    using ref by simp
  with D show d: "dicts w' ! stats_ref = dicts w ! stats_ref" by simp
  from L have len: "length (lists w) \<le> length (lists w')" by (rule take_length_le) simp
  with old d show "\<forall>ka \<in> set (dicts w' ! stats_ref). snd ka < length (lists w')" by fastforce
  have "lists w' ! a = lists w ! a" if "a < length (lists w)" for a
  proof -
    from that have "take (length (lists w)) (lists w') ! a = lists w' ! a" by simp
    with L show ?thesis by simp
  qed
  with old d show "dict_value w' stats_ref = dict_value w stats_ref"
    by (simp add: dict_value_def)
qed

text \<open>
  C4. In a world where every reference is allocated, \<^verbatim>\<open>getstats\<close> returns a dict that is
  not \<^verbatim>\<open>_stats\<close> and has the value of \<^verbatim>\<open>_stats\<close>; and whatever the caller then does to
  that dict or to the lists inside it, \<^verbatim>\<open>_stats\<close> still holds the same references and
  has the same value, and \<^verbatim>\<open>getstats\<close> called afterwards returns the value it would have
  returned had nothing been done.
\<close>

theorem getstats_independent_copy:
  "wf_world w \<and> getstats w = (r, w1) \<longrightarrow>
     r \<noteq> stats_ref
   \<and> dict_value w1 r = dict_value w stats_ref
   \<and> dicts (mutate_all r ms w1) ! stats_ref = dicts w ! stats_ref
   \<and> dict_value (mutate_all r ms w1) stats_ref = dict_value w stats_ref
   \<and> dict_value (snd (getstats (mutate_all r ms w1))) (fst (getstats (mutate_all r ms w1))) =
       dict_value (snd (getstats w1)) (fst (getstats w1))"
proof (intro impI, elim conjE)
  assume wf: "wf_world w" and get: "getstats w = (r, w1)"
  from wf have ref: "stats_ref < length (dicts w)" by (simp add: wf_world_def)
  from wf have old: "\<forall>ka \<in> set (dicts w ! stats_ref). snd ka < length (lists w)"
    using nth_mem [OF ref] by (auto simp add: wf_world_def list_all_iff)
  note copy = getstats_copy [OF old get]
  have sep: "take (length (dicts w)) (dicts (mutate_all r ms' w1)) = dicts w
      \<and> take (length (lists w)) (lists (mutate_all r ms' w1)) = lists w" for ms'
    using copy(2) _ copy(3) _ _ copy(4) copy(5)
    by (rule mutate_all_separate) (simp_all add: copy(1))
  have again: "dict_value (snd (getstats w')) (fst (getstats w')) = dict_value w stats_ref"
    if "take (length (dicts w)) (dicts w') = dicts w" "take (length (lists w)) (lists w') = lists w"
    for w'
  proof -
    note frame = dict_value_frame [OF wf that]
    obtain r' w'' where g: "getstats w' = (r', w'')" by (cases "getstats w'")
    from getstats_copy(6) [OF frame(2) g] frame(3) g show ?thesis by simp
  qed
  have 1: "r \<noteq> stats_ref" using copy(1) ref by simp
  have 2: "dict_value w1 r = dict_value w stats_ref" by (fact copy(6))
  have 3: "dicts (mutate_all r ms w1) ! stats_ref = dicts w ! stats_ref"
    using sep [of ms] by (intro dict_value_frame(1) [OF wf]) simp_all
  have 4: "dict_value (mutate_all r ms w1) stats_ref = dict_value w stats_ref"
    using sep [of ms] by (intro dict_value_frame(3) [OF wf]) simp_all
  have 5: "dict_value (snd (getstats (mutate_all r ms w1))) (fst (getstats (mutate_all r ms w1))) =
       dict_value w stats_ref"
    using sep [of ms] by (intro again) simp_all
  have 6: "dict_value (snd (getstats w1)) (fst (getstats w1)) = dict_value w stats_ref"
    using copy(2,3) by (intro again) simp_all
  from 1 2 3 4 5 6 show "r \<noteq> stats_ref
   \<and> dict_value w1 r = dict_value w stats_ref
   \<and> dicts (mutate_all r ms w1) ! stats_ref = dicts w ! stats_ref
   \<and> dict_value (mutate_all r ms w1) stats_ref = dict_value w stats_ref
   \<and> dict_value (snd (getstats (mutate_all r ms w1))) (fst (getstats (mutate_all r ms w1))) =
       dict_value (snd (getstats w1)) (fst (getstats w1))"
    by simp
qed


theorem getstats_independent_copy_witness:
  "fst (getstats \<lparr>calls = [], events = [], now = 0::int, dicts = [[(''x'', 0)]], lists = [(1, 3)]\<rparr>) = 1
 \<and> dict_value (mutate_all 1 [SetCount ''x'' 99, SetItem ''y'' 5 5, DelItem ''x'']
       (snd (getstats \<lparr>calls = [], events = [], now = 0::int, dicts = [[(''x'', 0)]], lists = [(1, 3)]\<rparr>)))
     stats_ref = [(''x'', 1, 3)]
 \<and> dict_value (mutate_all 1 [SetCount ''x'' 99, SetItem ''y'' 5 5, DelItem ''x'']
       (snd (getstats \<lparr>calls = [], events = [], now = 0::int, dicts = [[(''x'', 0)]], lists = [(1, 3)]\<rparr>)))
     1 = [(''y'', 5, 5)]"
  using getstats_independent_copy [of
      "\<lparr>calls = [], events = [], now = 0::int, dicts = [[(''x'', 0)]], lists = [(1, 3)]\<rparr>" 1
      "snd (getstats \<lparr>calls = [], events = [], now = 0::int, dicts = [[(''x'', 0)]], lists = [(1, 3)]\<rparr>)"
      "[SetCount ''x'' 99, SetItem ''y'' 5 5, DelItem ''x'']"]
  by (simp add: getstats_def mutate_all_def dict_get_def wf_world_def stats_ref_def dict_value_def)

text \<open>
  The same assignment made through the reference of \<^verbatim>\<open>_stats\<close> itself does change its
  value: the store tells a copy from an alias.
\<close>

lemma mutation_through_stats_ref:
  "dict_value (mutate stats_ref (SetCount ''x'' 99)
     \<lparr>calls = [], events = [], now = 0::int, dicts = [[(''x'', 0)]], lists = [(1, 3)]\<rparr>) stats_ref =
   [(''x'', 99, 3)]"
  by (simp add: dict_get_def stats_ref_def dict_value_def)


text \<open>
  The worlds the module reaches have every reference allocated: the first world has, and
  the facade, the exit of a range and \<^verbatim>\<open>getstats\<close> keep it so.
\<close>

lemma wf_world_init: "wf_world (init_world t)"
  by (simp add: wf_world_def init_world_def stats_ref_def)

lemma wf_world_facade:
  "wf_world (profile_mark b msg col pl cat w) = wf_world w"
  "wf_world (profile_range_push b msg col pl cat w) = wf_world w"
  "wf_world (profile_range_pop b w) = wf_world w"
  by (simp_all add: wf_world_def profile_mark_def profile_range_push_def profile_range_pop_def Let_def
      split: binding.splits)

lemma wf_world_getstats:
  assumes wf: "wf_world w"
  shows "wf_world (snd (getstats w))"
proof -
  from wf have ref: "stats_ref < length (dicts w)" by (simp add: wf_world_def)
  from wf have old: "\<forall>ka \<in> set (dicts w ! stats_ref). snd ka < length (lists w)"
    using nth_mem [OF ref] by (auto simp add: wf_world_def list_all_iff)
  obtain items memo ls where dc: "deepcopy_items (dicts w ! stats_ref) Map.empty (lists w) = (items, memo, ls)"
    by (cases "deepcopy_items (dicts w ! stats_ref) Map.empty (lists w)") auto
  have inv: "(\<exists>ext. ls = lists w @ ext)
       \<and> (\<forall>a a'. memo a = Some a' \<longrightarrow> length (lists w) \<le> a' \<and> a' < length ls \<and> ls ! a' = lists w ! a)
       \<and> (\<forall>ka \<in> set items. length (lists w) \<le> snd ka \<and> snd ka < length ls)
       \<and> map (\<lambda>ka. (fst ka, ls ! snd ka)) items = map (\<lambda>ka. (fst ka, lists w ! snd ka)) (dicts w ! stats_ref)"
    by (rule deepcopy_items_inv [OF dc old]) simp_all
  then obtain ext where ls: "ls = lists w @ ext" by blast
  from wf have "\<forall>d \<in> set (dicts w). \<forall>ka \<in> set d. snd ka < length ls"
    by (fastforce simp add: wf_world_def list_all_iff ls)
  with inv ref show ?thesis
    by (simp add: getstats_def dc wf_world_def list_all_iff)
qed

end
